theory Spec2Isabelle
  imports Main
begin

section \<open>Python strings\<close>

text \<open>
  A Python \<open>str\<close> is a sequence of Unicode code points; it is modelled as a list of
  their numbers, so that \<open>str.strip\<close> can see every whitespace character Python knows.
  \<open>lit\<close> writes an ASCII literal of the source.
\<close>

type_synonym pystr = "nat list"

definition lit :: "string \<Rightarrow> pystr" where
  "lit s = map of_char s"

text \<open>\<open>str.isspace\<close> on one character: the code points Python treats as whitespace.\<close>

definition py_isspace :: "nat \<Rightarrow> bool" where
  "py_isspace c =
     ((9 \<le> c \<and> c \<le> 13) \<or> (28 \<le> c \<and> c \<le> 32) \<or> c = 133 \<or> c = 160 \<or> c = 5760
      \<or> (8192 \<le> c \<and> c \<le> 8202) \<or> c = 8232 \<or> c = 8233 \<or> c = 8239 \<or> c = 8287
      \<or> c = 12288)"

text \<open>\<open>s.strip()\<close> removes leading and trailing whitespace.\<close>

definition strip :: "pystr \<Rightarrow> pystr" where
  "strip s = rev (dropWhile py_isspace (rev (dropWhile py_isspace s)))"

text \<open>\<open>s.startswith(p)\<close>.\<close>

definition startswith :: "pystr \<Rightarrow> pystr \<Rightarrow> bool" where
  "startswith s p = (take (length p) s = p)"

text \<open>\<open>str(n)\<close> for an integer: its decimal digits, with a minus sign when negative.\<close>

fun str_nat :: "nat \<Rightarrow> pystr" where
  "str_nat n = (if n < 10 then [48 + n] else str_nat (n div 10) @ [48 + n mod 10])"

declare str_nat.simps [simp del]

definition str_int :: "int \<Rightarrow> pystr" where
  "str_int i = (if i < 0 then 45 # str_nat (nat (- i)) else str_nat (nat i))"

text \<open>\<open>s.endswith(p)\<close>.\<close>

definition endswith :: "pystr \<Rightarrow> pystr \<Rightarrow> bool" where
  "endswith s p = (length p \<le> length s \<and> drop (length s - length p) s = p)"

text \<open>
  \<open>os.path.join(a, b)\<close> as \<open>posixpath\<close> computes it: an absolute \<open>b\<close> replaces
  \<open>a\<close>; otherwise \<open>b\<close> is appended, after a separator unless \<open>a\<close> is empty or ends
  with one. (For the relative names this program joins, \<open>ntpath\<close> does the same with
  its own separator.)
\<close>

definition os_path_join :: "pystr \<Rightarrow> pystr \<Rightarrow> pystr" where
  "os_path_join a b =
     (if startswith b (lit ''/'') then b
      else if a = [] \<or> endswith a (lit ''/'') then a @ b
      else a @ lit ''/'' @ b)"

text \<open>
  The \<open>strftime\<close> fields used by the program are decimal numbers padded with zeros:
  \<open>%Y\<close> to four digits, \<open>%m\<close>, \<open>%d\<close>, \<open>%H\<close>, \<open>%M\<close> and \<open>%S\<close> to two.
\<close>

definition zfill :: "nat \<Rightarrow> pystr \<Rightarrow> pystr" where
  "zfill n s = replicate (n - length s) 48 @ s"

section \<open>Exceptions, the log, the world\<close>

text \<open>
  The exceptions the stages of a session raise: \<open>tkinter.TclError\<close> from the overlay,
  \<open>OSError\<close>, \<open>ValueError\<close> and \<open>SystemError\<close> from the screen grab, the file system and the
  image encoder, \<open>requests.RequestException\<close> from the HTTP call,
  \<open>pyperclip.PyperclipException\<close> from the clipboard, and the \<open>RuntimeError\<close> that
  \<open>upload_to_catbox\<close> raises itself with its message. Each of them is a subclass of
  \<open>Exception\<close>, the class the handlers of \<open>on_hotkey\<close> catch.
\<close>

datatype exn =
    TclError
  | OSError
  | ValueError
  | SystemError
  | RequestException
  | PyperclipException
  | RuntimeError pystr

datatype level = INFO | ERROR

text \<open>
  A log record: level, message and, for \<open>logger.exception\<close>, the exception being
  handled.
\<close>

type_synonym log_record = "level \<times> pystr \<times> exn option"

text \<open>
  An image is its pixel data; the file system maps a path to the image saved there, and
  a path with no entry does not exist.
\<close>

type_synonym image = "nat list"

record world =
  files :: "pystr \<rightharpoonup> image"
  clipboard :: pystr
  logged :: "log_record list"

definition logger_info :: "pystr \<Rightarrow> world \<Rightarrow> world" where
  "logger_info msg w = w\<lparr>logged := logged w @ [(INFO, msg, None)]\<rparr>"

definition logger_exception :: "pystr \<Rightarrow> exn \<Rightarrow> world \<Rightarrow> world" where
  "logger_exception msg e w = w\<lparr>logged := logged w @ [(ERROR, msg, Some e)]\<rparr>"

section \<open>The collaborators of one session\<close>

text \<open>The three attributes of a \<open>requests.Response\<close> that the code reads.\<close>

record response =
  ok :: bool
  status_code :: int
  text_attr :: pystr

datatype event = ButtonPress int int | B1Motion int int | ButtonRelease int int

record datetime =
  year :: nat
  month :: nat
  day :: nat
  hour :: nat
  minute :: nat
  second :: nat
  microsecond :: nat

type_synonym bbox = "int \<times> int \<times> int \<times> int"

text \<open>
  What the outside world does during one session. \<open>home\<close> is
  \<open>os.path.expanduser("~")\<close>; \<open>tk_events\<close> is either the failure of \<open>tk.Tk()\<close> or the
  pointer events the overlay receives; \<open>ImageGrab_grab\<close> answers a bounding box with an
  image or an exception; \<open>datetime_now\<close> is the clock; \<open>img_save\<close>, \<open>pyperclip_copy\<close> and
  \<open>os_remove\<close> say whether the call raises (when it does, it has changed nothing);
  \<open>requests_post\<close> answers the uploaded bytes with a response or an exception.
\<close>

record env =
  home :: pystr
  tk_events :: "exn + event list"
  ImageGrab_grab :: "bbox \<Rightarrow> exn + image"
  datetime_now :: datetime
  img_save :: "pystr \<Rightarrow> image \<Rightarrow> exn option"
  requests_post :: "image \<Rightarrow> exn + response"
  pyperclip_copy :: "pystr \<Rightarrow> exn option"
  os_remove :: "pystr \<Rightarrow> exn option"

section \<open>Configuration\<close>

text \<open>
  \<open>TMP_DIR = os.path.join(os.path.expanduser("~"), "Pictures", "Screenshots")\<close>, as a
  function of the home directory.
\<close>

definition TMP_DIR :: "pystr \<Rightarrow> pystr" where
  "TMP_DIR h = os_path_join (os_path_join h (lit ''Pictures'')) (lit ''Screenshots'')"

section \<open>SnippingTool\<close>

text \<open>
  The fields of the tool; \<open>rect\<close> holds the coordinates of the rectangle that
  \<open>self.rect\<close> names on the canvas, once a press has created it.
\<close>

record tool =
  start_x :: int
  start_y :: int
  end_x :: int
  end_y :: int
  rect :: "bbox option"

definition on_button_press :: "tool \<Rightarrow> int \<Rightarrow> int \<Rightarrow> tool" where
  "on_button_press t x y = t\<lparr>start_x := x, start_y := y, rect := Some (x, y, x, y)\<rparr>"

text \<open>
  \<open>on_move_press\<close> only moves the rectangle on the canvas. Before any press
  \<open>self.rect\<close> is \<open>None\<close> and there is no rectangle to move; the call happens inside
  a Tk callback, so whatever it does there the main loop goes on and the fields of the
  tool are unchanged.
\<close>

definition on_move_press :: "tool \<Rightarrow> int \<Rightarrow> int \<Rightarrow> tool" where
  "on_move_press t curX curY =
     (case rect t of
        None \<Rightarrow> t
      | Some r \<Rightarrow> t\<lparr>rect := Some (start_x t, start_y t, curX, curY)\<rparr>)"

definition on_button_release :: "tool \<Rightarrow> int \<Rightarrow> int \<Rightarrow> tool" where
  "on_button_release t x y = t\<lparr>end_x := x, end_y := y\<rparr>"

text \<open>
  \<open>root.mainloop()\<close> dispatches the events in order and returns when
  \<open>on_button_release\<close> destroys the window, or when the window is closed with no
  release (the events run out).
\<close>

fun mainloop :: "tool \<Rightarrow> event list \<Rightarrow> tool" where
  "mainloop t [] = t"
| "mainloop t (ButtonPress x y # es) = mainloop (on_button_press t x y) es"
| "mainloop t (B1Motion x y # es) = mainloop (on_move_press t x y) es"
| "mainloop t (ButtonRelease x y # es) = on_button_release t x y"

definition SnippingTool :: "event list \<Rightarrow> tool" where
  "SnippingTool es =
     mainloop \<lparr>start_x = 0, start_y = 0, end_x = 0, end_y = 0, rect = None\<rparr> es"

section \<open>take_snip\<close>

text \<open>The bounding box \<open>(x1, y1, x2, y2)\<close> that \<open>take_snip\<close> computes from the tool.\<close>

definition selection_rect :: "tool \<Rightarrow> bbox" where
  "selection_rect t =
     (min (start_x t) (end_x t), min (start_y t) (end_y t),
      max (start_x t) (end_x t), max (start_y t) (end_y t))"

text \<open>\<open>datetime.strftime("%Y%m%d_%H%M%S")\<close>.\<close>

definition strftime :: "datetime \<Rightarrow> pystr" where
  "strftime d =
     zfill 4 (str_nat (year d)) @ zfill 2 (str_nat (month d)) @ zfill 2 (str_nat (day d))
     @ lit ''_''
     @ zfill 2 (str_nat (hour d)) @ zfill 2 (str_nat (minute d)) @ zfill 2 (str_nat (second d))"

definition snip_filename :: "datetime \<Rightarrow> pystr" where
  "snip_filename d = lit ''snip_'' @ strftime d @ lit ''.png''"

definition take_snip :: "env \<Rightarrow> world \<Rightarrow> (exn + pystr) \<times> world" where
  "take_snip en w =
     (case tk_events en of
        Inl e \<Rightarrow> (Inl e, w)
      | Inr es \<Rightarrow>
          (case ImageGrab_grab en (selection_rect (SnippingTool es)) of
             Inl e \<Rightarrow> (Inl e, w)
           | Inr img \<Rightarrow>
               (let path = os_path_join (TMP_DIR (home en)) (snip_filename (datetime_now en))
                in case img_save en path img of
                     Some e \<Rightarrow> (Inl e, w)
                   | None \<Rightarrow>
                       (Inr path,
                        logger_info (lit ''Region snipped and saved to '' @ path)
                          (w\<lparr>files := (files w)(path \<mapsto> img)\<rparr>)))))"

section \<open>upload_to_catbox\<close>

text \<open>
  \<open>open(filepath, "rb")\<close> raises when the file does not exist; \<open>requests.post\<close> raises or
  answers; the check of the response and the two exits follow the source.
\<close>

definition upload_to_catbox :: "env \<Rightarrow> pystr \<Rightarrow> world \<Rightarrow> (exn + pystr) \<times> world" where
  "upload_to_catbox en filepath w =
     (case files w filepath of
        None \<Rightarrow> (Inl OSError, w)
      | Some f \<Rightarrow>
          (case requests_post en f of
             Inl e \<Rightarrow> (Inl e, w)
           | Inr resp \<Rightarrow>
               if \<not> ok resp \<or> \<not> startswith (text_attr resp) (lit ''http'')
               then (Inl (RuntimeError (lit ''Upload failed ('' @ str_int (status_code resp)
                                         @ lit ''): '' @ text_attr resp)), w)
               else (Inr (strip (text_attr resp)),
                     logger_info (lit ''Upload successful: '' @ text_attr resp) w)))"

section \<open>on_hotkey\<close>

text \<open>
  The body of the \<open>try\<close>: its outcome, the value of the local \<open>path\<close> when it is
  left, and the world.
\<close>

definition on_hotkey_try :: "env \<Rightarrow> world \<Rightarrow> (exn + unit) \<times> pystr option \<times> world" where
  "on_hotkey_try en w =
     (case take_snip en w of
        (Inl e, w1) \<Rightarrow> (Inl e, None, w1)
      | (Inr path, w1) \<Rightarrow>
          (case upload_to_catbox en path w1 of
             (Inl e, w2) \<Rightarrow> (Inl e, Some path, w2)
           | (Inr url, w2) \<Rightarrow>
               (case pyperclip_copy en url of
                  Some e \<Rightarrow> (Inl e, Some path, w2)
                | None \<Rightarrow>
                    (Inr (), Some path,
                     logger_info (lit ''Link copied to clipboard.'') (w2\<lparr>clipboard := url\<rparr>)))))"

text \<open>\<open>except Exception: logger.exception("Error during snip+upload:")\<close>.\<close>

definition on_hotkey_except :: "(exn + unit) \<times> world \<Rightarrow> (exn + unit) \<times> world" where
  "on_hotkey_except r =
     (case r of
        (Inl e, w) \<Rightarrow> (Inr (), logger_exception (lit ''Error during snip+upload:'') e w)
      | (Inr u, w) \<Rightarrow> (Inr u, w))"

text \<open>
  The \<open>finally\<close> block: \<open>os.remove\<close> is attempted when \<open>path\<close> is set, not empty and
  names an existing file; its failure is caught and logged.
\<close>

definition on_hotkey_finally :: "env \<Rightarrow> pystr option \<Rightarrow> world \<Rightarrow> (exn + unit) \<times> world" where
  "on_hotkey_finally en path w =
     (case path of
        None \<Rightarrow> (Inr (), w)
      | Some p \<Rightarrow>
          if p \<noteq> [] \<and> files w p \<noteq> None
          then (case os_remove en p of
                  Some e \<Rightarrow> (Inr (), logger_exception (lit ''Could not delete temp file'') e w)
                | None \<Rightarrow>
                    (Inr (),
                     logger_info (lit ''Temporary file deleted: '' @ p)
                       (w\<lparr>files := (files w)(p := None)\<rparr>)))
          else (Inr (), w))"

text \<open>
  The whole callback: what it hands to its caller (\<open>Inl\<close> an exception that leaves it,
  \<open>Inr ()\<close> a normal return) and the world afterwards.
\<close>

definition on_hotkey :: "env \<Rightarrow> world \<Rightarrow> (exn + unit) \<times> world" where
  "on_hotkey en w =
     (case on_hotkey_try en w of
        (r, path, w1) \<Rightarrow>
          (case on_hotkey_except (r, w1) of
             (r2, w2) \<Rightarrow>
               (case on_hotkey_finally en path w2 of
                  (Inl e, w3) \<Rightarrow> (Inl e, w3)
                | (Inr u, w3) \<Rightarrow> (r2, w3))))"

section \<open>Reading a file name back\<close>

text \<open>
  The vocabulary of the statements about the capture file's name: a decimal digit, the
  number a digit string denotes, a clock reading with a four-digit year, and two clock
  readings within the same second.
\<close>

definition is_digit :: "nat \<Rightarrow> bool" where
  "is_digit c = (48 \<le> c \<and> c \<le> 57)"

definition decimal :: "pystr \<Rightarrow> nat" where
  "decimal s = foldl (\<lambda>a c. 10 * a + (c - 48)) 0 s"

definition clock_datetime :: "datetime \<Rightarrow> bool" where
  "clock_datetime d =
     (1000 \<le> year d \<and> year d \<le> 9999 \<and> 1 \<le> month d \<and> month d \<le> 12
      \<and> 1 \<le> day d \<and> day d \<le> 31 \<and> hour d < 24 \<and> minute d < 60 \<and> second d < 60
      \<and> microsecond d < 1000000)"

definition same_second :: "datetime \<Rightarrow> datetime \<Rightarrow> bool" where
  "same_second a b =
     (year a = year b \<and> month a = month b \<and> day a = day b
      \<and> hour a = hour b \<and> minute a = minute b \<and> second a = second b)"

section \<open>An example session\<close>

text \<open>
  A drag from (300, 300) to (100, 100) at 2024-05-17 09:03:07, a grab that answers three
  bytes, and an endpoint that answers with the given response; \<open>rm\<close> is what
  \<open>os.remove\<close> does.
\<close>

definition example_now :: datetime where
  "example_now = \<lparr>year = 2024, month = 5, day = 17, hour = 9, minute = 3, second = 7,
     microsecond = 123456\<rparr>"

definition example_env :: "response \<Rightarrow> exn option \<Rightarrow> env" where
  "example_env resp rm =
     \<lparr>home = lit ''/home/u'',
      tk_events = Inr [ButtonPress 300 300, B1Motion 200 200, ButtonRelease 100 100],
      ImageGrab_grab = (\<lambda>b. Inr [7, 2, 3]),
      datetime_now = example_now,
      img_save = (\<lambda>p i. None),
      requests_post = (\<lambda>f. Inr resp),
      pyperclip_copy = (\<lambda>u. None),
      os_remove = (\<lambda>p. rm)\<rparr>"

definition example_world :: world where
  "example_world = \<lparr>files = Map.empty, clipboard = lit ''old'', logged = []\<rparr>"

definition response_200 :: response where
  "response_200 = \<lparr>ok = True, status_code = 200, text_attr = lit ''https://files.example/abc.png''\<rparr>"

definition response_400 :: response where
  "response_400 = \<lparr>ok = False, status_code = 400, text_attr = lit ''Bad request''\<rparr>"

section \<open>Facts about strings\<close>

lemma lit_http: "lit ''http'' = [104, 116, 116, 112]"
  by (simp add: lit_def)

lemma startswith_http_hd:
  assumes "startswith s (lit ''http'')"
  obtains t where "s = 104 # t"
proof -
  from assms have "take (length [104, 116, 116, 112 :: nat]) s = [104, 116, 116, 112]"
    by (simp only: startswith_def lit_http)
  then show thesis
    by (cases s) (auto intro: that)
qed

lemma strip_http:
  assumes "startswith s (lit ''http'')"
  shows "strip s = rev (dropWhile py_isspace (rev s))"
proof -
  from assms obtain t where "s = 104 # t"
    by (rule startswith_http_hd)
  then show ?thesis
    by (simp add: strip_def py_isspace_def)
qed

lemma rstrip_decompose:
  "\<exists>ws. s = rev (dropWhile P (rev s)) @ ws \<and> (\<forall>c \<in> set ws. P c)"
proof -
  have "rev s = takeWhile P (rev s) @ dropWhile P (rev s)"
    by simp
  then have "s = rev (dropWhile P (rev s)) @ rev (takeWhile P (rev s))"
    by (metis rev_append rev_rev_ident)
  moreover have "\<forall>c \<in> set (rev (takeWhile P (rev s))). P c"
    by (auto dest: set_takeWhileD)
  ultimately show ?thesis
    by blast
qed

lemma rstrip_last:
  assumes "rev (dropWhile P (rev s)) \<noteq> []"
  shows "\<not> P (last (rev (dropWhile P (rev s))))"
proof -
  from assms have ne: "dropWhile P (rev s) \<noteq> []"
    by simp
  then have "\<not> P (hd (dropWhile P (rev s)))"
    by (rule hd_dropWhile)
  with ne show ?thesis
    by (simp add: last_rev)
qed

lemma rstrip_keeps_head:
  assumes "\<not> P x"
  shows "rev (dropWhile P (rev (x # t))) \<noteq> []"
proof -
  have "x \<in> set (rev (x # t))"
    by simp
  with assms have "dropWhile P (rev (x # t)) \<noteq> []"
    by (metis dropWhile_eq_Nil_conv)
  then show ?thesis
    by simp
qed

lemma rstrip_id:
  assumes "s \<noteq> []" and "\<not> P (last s)"
  shows "rev (dropWhile P (rev s)) = s"
proof -
  from assms have "rev s \<noteq> []" and "\<not> P (hd (rev s))"
    by (simp_all add: hd_rev)
  then have "dropWhile P (rev s) = rev s"
    by (cases "rev s") simp_all
  then show ?thesis
    by simp
qed

section \<open>Facts about the timestamp and the path\<close>

lemma str_nat_1: "n < 10 \<Longrightarrow> str_nat n = [48 + n]"
  by (subst str_nat.simps) simp

lemma str_nat_2: "10 \<le> n \<Longrightarrow> n < 100 \<Longrightarrow> str_nat n = [48 + n div 10, 48 + n mod 10]"
  by (subst str_nat.simps) (simp add: str_nat_1)

lemma str_nat_3:
  "100 \<le> n \<Longrightarrow> n < 1000 \<Longrightarrow> str_nat n = [48 + n div 100, 48 + n div 10 mod 10, 48 + n mod 10]"
  by (subst str_nat.simps) (simp add: str_nat_2 div_mult2_eq [symmetric])

lemma str_nat_4:
  "1000 \<le> n \<Longrightarrow> n < 10000 \<Longrightarrow>
     str_nat n = [48 + n div 1000, 48 + n div 100 mod 10, 48 + n div 10 mod 10, 48 + n mod 10]"
  by (subst str_nat.simps) (simp add: str_nat_3 div_mult2_eq [symmetric])

lemma zfill_2:
  assumes "n < 100"
  shows "zfill 2 (str_nat n) = [48 + n div 10, 48 + n mod 10]"
proof (cases "n < 10")
  case True
  then show ?thesis
    by (simp add: zfill_def str_nat_1)
next
  case False
  with assms show ?thesis
    by (simp add: zfill_def str_nat_2)
qed

lemma zfill_4:
  assumes "1000 \<le> n" and "n < 10000"
  shows "zfill 4 (str_nat n)
           = [48 + n div 1000, 48 + n div 100 mod 10, 48 + n div 10 mod 10, 48 + n mod 10]"
  using assms by (simp add: zfill_def str_nat_4)

lemma two_digits: "decimal [48 + n div 10, 48 + n mod 10] = n"
  by (simp add: decimal_def)

lemma strftime_clock:
  assumes "clock_datetime d"
  shows "strftime d =
     [48 + year d div 1000, 48 + year d div 100 mod 10, 48 + year d div 10 mod 10,
      48 + year d mod 10,
      48 + month d div 10, 48 + month d mod 10,
      48 + day d div 10, 48 + day d mod 10,
      95,
      48 + hour d div 10, 48 + hour d mod 10,
      48 + minute d div 10, 48 + minute d mod 10,
      48 + second d div 10, 48 + second d mod 10]"
  using assms by (simp add: strftime_def clock_datetime_def zfill_2 zfill_4 lit_def)

lemma mod10_le9: "n mod 10 \<le> (9::nat)"
  by arith

lemma div10_le9: "n < 100 \<Longrightarrow> n div 10 \<le> (9::nat)"
  by arith

lemma div1000_le9: "n < 10000 \<Longrightarrow> n div 1000 \<le> (9::nat)"
  by arith

lemma strftime_shape:
  assumes "clock_datetime d"
  shows "length (strftime d) = 15" and "strftime d ! 8 = 95"
    and "list_all is_digit (take 8 (strftime d))"
    and "list_all is_digit (drop 9 (strftime d))"
  using assms
  by (simp_all add: strftime_clock is_digit_def clock_datetime_def mod10_le9 div10_le9
        div1000_le9)

lemma four_digits:
  "decimal [48 + n div 1000, 48 + n div 100 mod 10, 48 + n div 10 mod 10, 48 + n mod 10] = n"
proof -
  have a: "n div 1000 = n div 100 div 10" and b: "n div 100 = n div 10 div 10"
    by (simp_all add: div_mult2_eq [symmetric])
  have "decimal [48 + n div 1000, 48 + n div 100 mod 10, 48 + n div 10 mod 10, 48 + n mod 10]
          = 10 * (10 * (10 * (n div 1000) + n div 100 mod 10) + n div 10 mod 10) + n mod 10"
    by (simp add: decimal_def)
  also have "10 * (n div 1000) + n div 100 mod 10 = n div 100"
    by (simp only: a mult_div_mod_eq)
  also have "10 * (n div 100) + n div 10 mod 10 = n div 10"
    by (simp only: b mult_div_mod_eq)
  also have "10 * (n div 10) + n mod 10 = n"
    by (simp only: mult_div_mod_eq)
  finally show ?thesis .
qed

lemma strftime_fields:
  assumes "clock_datetime d"
  shows "decimal (take 4 (strftime d)) = year d"
    and "decimal (take 2 (drop 4 (strftime d))) = month d"
    and "decimal (take 2 (drop 6 (strftime d))) = day d"
    and "decimal (take 2 (drop 9 (strftime d))) = hour d"
    and "decimal (take 2 (drop 11 (strftime d))) = minute d"
    and "decimal (take 2 (drop 13 (strftime d))) = second d"
  using assms
  by (simp_all add: strftime_clock four_digits two_digits)

lemma TMP_DIR_last: "TMP_DIR h \<noteq> [] \<and> last (TMP_DIR h) = 115"
  by (simp add: TMP_DIR_def os_path_join_def lit_def startswith_def)

lemma endswith_sep: "endswith s (lit ''/'') \<Longrightarrow> last s = 47"
  by (cases s rule: rev_cases) (simp_all add: endswith_def lit_def)

lemma snip_path:
  "os_path_join (TMP_DIR h) (snip_filename d) = TMP_DIR h @ lit ''/'' @ snip_filename d"
proof -
  have "\<not> startswith (snip_filename d) (lit ''/'')"
    by (simp add: snip_filename_def startswith_def lit_def)
  moreover have "\<not> endswith (TMP_DIR h) (lit ''/'')"
    using TMP_DIR_last [of h] endswith_sep [of "TMP_DIR h"] by auto
  ultimately show ?thesis
    using TMP_DIR_last [of h] by (simp add: os_path_join_def)
qed

section \<open>Frame facts of the stages\<close>

lemma upload_to_catbox_frame:
  assumes "upload_to_catbox en p w1 = (r, w2)"
  shows "files w2 = files w1 \<and> clipboard w2 = clipboard w1"
  using assms
  by (auto simp add: upload_to_catbox_def logger_info_def
      split: sum.splits option.splits if_splits)

section \<open>The upload\<close>

text \<open>
  Claim C1. Once the file is open and the endpoint has answered, \<open>upload_to_catbox\<close>
  raises exactly when the response is not \<open>ok\<close> or its body does not start with
  \<open>http\<close>, and what it raises is the \<open>RuntimeError\<close> whose message holds the status
  code in decimal and the raw body.
\<close>

theorem upload_to_catbox_raises_iff:
  assumes "files w filepath = Some f" and "requests_post en f = Inr resp"
  shows "((\<exists>e. fst (upload_to_catbox en filepath w) = Inl e) \<longleftrightarrow>
           (\<not> ok resp \<or> \<not> startswith (text_attr resp) (lit ''http'')))
         \<and> (\<forall>e. fst (upload_to_catbox en filepath w) = Inl e \<longrightarrow>
               e = RuntimeError (lit ''Upload failed ('' @ str_int (status_code resp)
                                  @ lit ''): '' @ text_attr resp))"
  using assms by (simp add: upload_to_catbox_def)

lemma str_int_400: "str_int 400 = lit ''400''"
  by code_simp

theorem upload_to_catbox_raises_iff_witness:
  "fst (upload_to_catbox (example_env response_400 None)
          (lit ''/tmp/a.png'') (example_world\<lparr>files := [lit ''/tmp/a.png'' \<mapsto> [7, 2, 3]]\<rparr>))
     = Inl (RuntimeError (lit ''Upload failed (400): Bad request''))"
  using upload_to_catbox_raises_iff
    [of "example_world\<lparr>files := [lit ''/tmp/a.png'' \<mapsto> [7, 2, 3]]\<rparr>" "lit ''/tmp/a.png''"
        "[7, 2, 3]" "example_env response_400 None" response_400]
  by (auto simp add: example_env_def response_400_def str_int_400 lit_def)

text \<open>
  Claim C2. For a response that is \<open>ok\<close> and whose body starts with \<open>http\<close>,
  \<open>upload_to_catbox\<close> returns the body without its trailing whitespace: the body is the
  result followed by whitespace only, the result does not end in whitespace, and a body
  with no trailing whitespace is returned as it is.
\<close>

theorem upload_to_catbox_returns_body:
  assumes "files w filepath = Some f" and "requests_post en f = Inr resp"
    and "ok resp" and "startswith (text_attr resp) (lit ''http'')"
  shows "\<exists>url ws. fst (upload_to_catbox en filepath w) = Inr url
           \<and> text_attr resp = url @ ws \<and> (\<forall>c \<in> set ws. py_isspace c)
           \<and> url \<noteq> [] \<and> \<not> py_isspace (last url)
           \<and> (\<not> py_isspace (last (text_attr resp)) \<longrightarrow> url = text_attr resp)"
proof -
  let ?s = "text_attr resp"
  let ?url = "rev (dropWhile py_isspace (rev ?s))"
  from assms have ret: "fst (upload_to_catbox en filepath w) = Inr ?url"
    by (simp add: upload_to_catbox_def strip_http)
  obtain ws where ws: "?s = ?url @ ws" "\<forall>c \<in> set ws. py_isspace c"
    using rstrip_decompose [of ?s py_isspace] by blast
  from assms(4) obtain t where t: "?s = 104 # t"
    by (rule startswith_http_hd)
  have "\<not> py_isspace 104"
    by (simp add: py_isspace_def)
  then have "rev (dropWhile py_isspace (rev (104 # t))) \<noteq> []"
    by (rule rstrip_keeps_head)
  with t have ne: "?url \<noteq> []"
    by simp
  then have la: "\<not> py_isspace (last ?url)"
    by (rule rstrip_last)
  have "?s \<noteq> []"
    using t by simp
  then have "\<not> py_isspace (last ?s) \<longrightarrow> ?url = ?s"
    by (simp add: rstrip_id)
  with ret ws ne la show ?thesis
    by blast
qed

theorem upload_to_catbox_returns_body_witness:
  "fst (upload_to_catbox (example_env response_200 None)
          (lit ''/tmp/a.png'') (example_world\<lparr>files := [lit ''/tmp/a.png'' \<mapsto> [7, 2, 3]]\<rparr>))
     = Inr (lit ''https://files.example/abc.png'')"
  using upload_to_catbox_returns_body
    [of "example_world\<lparr>files := [lit ''/tmp/a.png'' \<mapsto> [7, 2, 3]]\<rparr>" "lit ''/tmp/a.png''"
        "[7, 2, 3]" "example_env response_200 None" response_200]
  by (auto simp add: example_env_def response_200_def lit_def startswith_def py_isspace_def)

section \<open>The selection\<close>

lemma mainloop_drag:
  "mainloop t (map (\<lambda>(x, y). B1Motion x y) ms @ [ButtonRelease ex ey])
     = (mainloop t (map (\<lambda>(x, y). B1Motion x y) ms))\<lparr>end_x := ex, end_y := ey\<rparr>"
  by (induction ms arbitrary: t) (auto simp add: on_button_release_def)

lemma mainloop_motion_start:
  "start_x (mainloop t (map (\<lambda>(x, y). B1Motion x y) ms)) = start_x t
   \<and> start_y (mainloop t (map (\<lambda>(x, y). B1Motion x y) ms)) = start_y t"
  by (induction ms arbitrary: t) (auto simp add: on_move_press_def split: option.splits)

text \<open>
  Claim C3. After a drag that starts at \<open>(sx, sy)\<close>, moves anywhere and is released
  at \<open>(ex, ey)\<close>, the rectangle \<open>take_snip\<close> computes is
  \<open>(min sx ex, min sy ey, max sx ex, max sy ey)\<close>, so \<open>x1 \<le> x2\<close> and \<open>y1 \<le> y2\<close>
  whatever the direction of the drag.
\<close>

theorem take_snip_selection_rect:
  "selection_rect
     (SnippingTool (ButtonPress sx sy # map (\<lambda>(x, y). B1Motion x y) ms @ [ButtonRelease ex ey]))
     = (min sx ex, min sy ey, max sx ex, max sy ey)
   \<and> min sx ex \<le> max sx ex \<and> min sy ey \<le> max sy ey"
  by (auto simp add: SnippingTool_def selection_rect_def mainloop_drag mainloop_motion_start
        on_button_press_def)

theorem take_snip_selection_rect_witness:
  "selection_rect (SnippingTool [ButtonPress 300 300, B1Motion 200 250, ButtonRelease 100 100])
     = (100, 100, 300, 300)"
  using take_snip_selection_rect [of 300 300 "[(200, 250)]" 100 100] by simp

text \<open>
  A click without a drag gives the empty box, which \<open>take_snip\<close> hands to
  \<open>ImageGrab.grab\<close> as it is.
\<close>

lemma selection_rect_click:
  "selection_rect (SnippingTool [ButtonPress x y, ButtonRelease x y]) = (x, y, x, y)"
  by (simp add: SnippingTool_def selection_rect_def on_button_press_def on_button_release_def)

section \<open>The stages seen from the callback\<close>

lemma take_snip_fst_Inr:
  assumes "fst (take_snip en w) = Inr p"
  obtains es img where "tk_events en = Inr es"
    and "ImageGrab_grab en (selection_rect (SnippingTool es)) = Inr img"
    and "p = os_path_join (TMP_DIR (home en)) (snip_filename (datetime_now en))"
    and "img_save en p img = None"
    and "snd (take_snip en w) = logger_info (lit ''Region snipped and saved to '' @ p)
                (w\<lparr>files := (files w)(p \<mapsto> img)\<rparr>)"
  using assms
  by (auto simp add: take_snip_def Let_def split: sum.splits option.splits)

lemma take_snip_fst_Inl:
  assumes "fst (take_snip en w) = Inl e"
  shows "snd (take_snip en w) = w"
  using assms
  by (auto simp add: take_snip_def Let_def split: sum.splits option.splits)

lemma snip_path_nonempty:
  "os_path_join (TMP_DIR h) (snip_filename d) \<noteq> []"
  by (simp add: snip_path lit_def)

lemma upload_frame_snd:
  "files (snd (upload_to_catbox en p w)) = files w
   \<and> clipboard (snd (upload_to_catbox en p w)) = clipboard w"
  using upload_to_catbox_frame [of en p w "fst (upload_to_catbox en p w)"
      "snd (upload_to_catbox en p w)"]
  by simp

lemma upload_logged_snd:
  "set (logged w) \<subseteq> set (logged (snd (upload_to_catbox en p w)))"
  by (auto simp add: upload_to_catbox_def logger_info_def
      split: sum.splits option.splits if_splits)

text \<open>The three ways the body of the \<open>try\<close> is left.\<close>

lemma on_hotkey_try_snip_fails:
  assumes "fst (take_snip en w) = Inl e"
  shows "on_hotkey_try en w = (Inl e, None, w)"
  using assms take_snip_fst_Inl [OF assms]
  by (cases "take_snip en w") (simp add: on_hotkey_try_def)

lemma on_hotkey_try_upload_fails:
  assumes "fst (take_snip en w) = Inr p"
    and "fst (upload_to_catbox en p (snd (take_snip en w))) = Inl e"
  shows "on_hotkey_try en w
           = (Inl e, Some p, snd (upload_to_catbox en p (snd (take_snip en w))))"
  using assms
  by (cases "take_snip en w"; cases "upload_to_catbox en p (snd (take_snip en w))")
     (simp add: on_hotkey_try_def)

lemma on_hotkey_try_copy_fails:
  assumes "fst (take_snip en w) = Inr p"
    and "fst (upload_to_catbox en p (snd (take_snip en w))) = Inr url"
    and "pyperclip_copy en url = Some e"
  shows "on_hotkey_try en w
           = (Inl e, Some p, snd (upload_to_catbox en p (snd (take_snip en w))))"
  using assms
  by (cases "take_snip en w"; cases "upload_to_catbox en p (snd (take_snip en w))")
     (simp add: on_hotkey_try_def)

lemma on_hotkey_try_succeeds:
  assumes "fst (take_snip en w) = Inr p"
    and "fst (upload_to_catbox en p (snd (take_snip en w))) = Inr url"
    and "pyperclip_copy en url = None"
  shows "on_hotkey_try en w
           = (Inr (), Some p,
              logger_info (lit ''Link copied to clipboard.'')
                ((snd (upload_to_catbox en p (snd (take_snip en w))))\<lparr>clipboard := url\<rparr>))"
  using assms
  by (cases "take_snip en w"; cases "upload_to_catbox en p (snd (take_snip en w))")
     (simp add: on_hotkey_try_def)

lemma on_hotkey_finally_returns: "fst (on_hotkey_finally en path w) = Inr ()"
  by (simp add: on_hotkey_finally_def split: option.splits)

lemma on_hotkey_finally_clipboard:
  "clipboard (snd (on_hotkey_finally en path w)) = clipboard w"
  by (simp add: on_hotkey_finally_def logger_info_def logger_exception_def
      split: option.splits)

lemma on_hotkey_finally_logged:
  "set (logged w) \<subseteq> set (logged (snd (on_hotkey_finally en path w)))"
  by (auto simp add: on_hotkey_finally_def logger_info_def logger_exception_def
      split: option.splits)

lemma on_hotkey_eq:
  "on_hotkey en w =
     (Inr (),
      snd (on_hotkey_finally en (fst (snd (on_hotkey_try en w)))
             (snd (on_hotkey_except (fst (on_hotkey_try en w), snd (snd (on_hotkey_try en w)))))))"
proof -
  obtain r path w1 where t: "on_hotkey_try en w = (r, path, w1)"
    by (cases "on_hotkey_try en w") auto
  obtain r2 w2 where x: "on_hotkey_except (r, w1) = (r2, w2)"
    by (cases "on_hotkey_except (r, w1)") auto
  then have r2: "r2 = Inr ()"
    by (auto simp add: on_hotkey_except_def split: sum.splits)
  obtain c w3 where f: "on_hotkey_finally en path w2 = (c, w3)"
    by (cases "on_hotkey_finally en path w2") auto
  with on_hotkey_finally_returns [of en path w2] have "c = Inr ()"
    by simp
  with t x r2 f show ?thesis
    by (simp add: on_hotkey_def)
qed

lemma on_hotkey_try_path:
  assumes "fst (take_snip en w) = Inr p"
  shows "fst (snd (on_hotkey_try en w)) = Some p
         \<and> files (snd (snd (on_hotkey_try en w))) = files (snd (take_snip en w))"
proof (cases "fst (upload_to_catbox en p (snd (take_snip en w)))")
  case (Inl e)
  with assms show ?thesis
    by (simp add: on_hotkey_try_upload_fails upload_frame_snd)
next
  case (Inr url)
  show ?thesis
  proof (cases "pyperclip_copy en url")
    case None
    with assms Inr show ?thesis
      by (simp add: on_hotkey_try_succeeds upload_frame_snd logger_info_def)
  next
    case (Some e)
    with assms Inr show ?thesis
      by (simp add: on_hotkey_try_copy_fails upload_frame_snd)
  qed
qed

lemma on_hotkey_except_files: "files (snd (on_hotkey_except (r, w))) = files w"
  by (simp add: on_hotkey_except_def logger_exception_def split: sum.splits)

lemma on_hotkey_except_clipboard: "clipboard (snd (on_hotkey_except (r, w))) = clipboard w"
  by (simp add: on_hotkey_except_def logger_exception_def split: sum.splits)

lemma on_hotkey_logs_error:
  assumes "fst (on_hotkey_try en w) = Inl e"
  shows "(ERROR, lit ''Error during snip+upload:'', Some e) \<in> set (logged (snd (on_hotkey en w)))"
proof -
  let ?w1 = "snd (snd (on_hotkey_try en w))"
  have "(ERROR, lit ''Error during snip+upload:'', Some e)
          \<in> set (logged (snd (on_hotkey_except (Inl e, ?w1))))"
    by (simp add: on_hotkey_except_def logger_exception_def)
  with assms show ?thesis
    using on_hotkey_finally_logged by (auto simp add: on_hotkey_eq)
qed

lemma on_hotkey_logs_cleanup_error:
  assumes "fst (take_snip en w) = Inr p" and "os_remove en p = Some e"
  shows "(ERROR, lit ''Could not delete temp file'', Some e)
           \<in> set (logged (snd (on_hotkey en w)))"
proof -
  let ?r = "fst (on_hotkey_try en w)" and ?w1 = "snd (snd (on_hotkey_try en w))"
  let ?w2 = "snd (on_hotkey_except (?r, ?w1))"
  from assms(1) obtain img where "files (snd (take_snip en w)) p = Some img" and "p \<noteq> []"
    by (rule take_snip_fst_Inr) (simp add: logger_info_def snip_path_nonempty)
  with assms(1) have "files ?w2 p = Some img" and "p \<noteq> []"
    by (simp_all add: on_hotkey_try_path on_hotkey_except_files)
  with assms(2) have "(ERROR, lit ''Could not delete temp file'', Some e)
      \<in> set (logged (snd (on_hotkey_finally en (Some p) ?w2)))"
    by (simp add: on_hotkey_finally_def logger_exception_def)
  with assms(1) show ?thesis
    by (simp add: on_hotkey_eq on_hotkey_try_path)
qed

text \<open>
  Claim C4. \<open>on_hotkey\<close> returns normally whatever the stages do. An exception
  raised by the selection or the capture (in \<open>take_snip\<close>), by the upload or by the
  clipboard write is logged under \<open>Error during snip+upload:\<close>; an exception raised by
  \<open>os.remove\<close> is logged under \<open>Could not delete temp file\<close>; none of them leaves the
  callback.
\<close>

theorem on_hotkey_swallows:
  "fst (on_hotkey en w) = Inr ()
   \<and> (\<forall>e. fst (take_snip en w) = Inl e \<longrightarrow>
         (ERROR, lit ''Error during snip+upload:'', Some e) \<in> set (logged (snd (on_hotkey en w))))
   \<and> (\<forall>p e. fst (take_snip en w) = Inr p
           \<and> fst (upload_to_catbox en p (snd (take_snip en w))) = Inl e \<longrightarrow>
         (ERROR, lit ''Error during snip+upload:'', Some e) \<in> set (logged (snd (on_hotkey en w))))
   \<and> (\<forall>p url e. fst (take_snip en w) = Inr p
           \<and> fst (upload_to_catbox en p (snd (take_snip en w))) = Inr url
           \<and> pyperclip_copy en url = Some e \<longrightarrow>
         (ERROR, lit ''Error during snip+upload:'', Some e) \<in> set (logged (snd (on_hotkey en w))))
   \<and> (\<forall>p e. fst (take_snip en w) = Inr p \<and> os_remove en p = Some e \<longrightarrow>
         (ERROR, lit ''Could not delete temp file'', Some e)
           \<in> set (logged (snd (on_hotkey en w))))"
proof (intro conjI allI impI)
  show "fst (on_hotkey en w) = Inr ()"
    by (simp add: on_hotkey_eq)
next
  fix e
  assume "fst (take_snip en w) = Inl e"
  then have "fst (on_hotkey_try en w) = Inl e"
    by (simp add: on_hotkey_try_snip_fails)
  then show "(ERROR, lit ''Error during snip+upload:'', Some e)
               \<in> set (logged (snd (on_hotkey en w)))"
    by (rule on_hotkey_logs_error)
next
  fix p e
  assume "fst (take_snip en w) = Inr p
            \<and> fst (upload_to_catbox en p (snd (take_snip en w))) = Inl e"
  then have "fst (on_hotkey_try en w) = Inl e"
    by (simp add: on_hotkey_try_upload_fails)
  then show "(ERROR, lit ''Error during snip+upload:'', Some e)
               \<in> set (logged (snd (on_hotkey en w)))"
    by (rule on_hotkey_logs_error)
next
  fix p url e
  assume "fst (take_snip en w) = Inr p
            \<and> fst (upload_to_catbox en p (snd (take_snip en w))) = Inr url
            \<and> pyperclip_copy en url = Some e"
  then have "fst (on_hotkey_try en w) = Inl e"
    by (simp add: on_hotkey_try_copy_fails)
  then show "(ERROR, lit ''Error during snip+upload:'', Some e)
               \<in> set (logged (snd (on_hotkey en w)))"
    by (rule on_hotkey_logs_error)
next
  fix p e
  assume "fst (take_snip en w) = Inr p \<and> os_remove en p = Some e"
  then show "(ERROR, lit ''Could not delete temp file'', Some e)
               \<in> set (logged (snd (on_hotkey en w)))"
    by (simp add: on_hotkey_logs_cleanup_error)
qed

section \<open>The example session, evaluated\<close>

lemma example_strftime: "strftime example_now = lit ''20240517_090307''"
  by (simp add: strftime_clock clock_datetime_def example_now_def lit_def)

lemma example_TMP_DIR: "TMP_DIR (lit ''/home/u'') = lit ''/home/u/Pictures/Screenshots''"
  by (simp add: TMP_DIR_def os_path_join_def startswith_def endswith_def lit_def)

lemma example_path:
  "os_path_join (TMP_DIR (lit ''/home/u'')) (snip_filename example_now)
     = lit ''/home/u/Pictures/Screenshots/snip_20240517_090307.png''"
  by (simp add: snip_filename_def example_strftime example_TMP_DIR)
     (simp add: os_path_join_def startswith_def endswith_def lit_def)

lemma example_take_snip:
  "fst (take_snip (example_env resp rm) example_world)
     = Inr (lit ''/home/u/Pictures/Screenshots/snip_20240517_090307.png'')"
  by (simp add: take_snip_def example_env_def example_path Let_def)

lemma example_files:
  "files (snd (take_snip (example_env resp rm) example_world))
     (lit ''/home/u/Pictures/Screenshots/snip_20240517_090307.png'') = Some [7, 2, 3]"
  by (simp add: take_snip_def example_env_def example_path Let_def logger_info_def)

lemma example_requests_post: "requests_post (example_env resp rm) f = Inr resp"
  by (simp add: example_env_def)

lemma example_pyperclip_copy: "pyperclip_copy (example_env resp rm) url = None"
  by (simp add: example_env_def)

lemma example_os_remove: "os_remove (example_env resp rm) p = rm"
  by (simp add: example_env_def)

lemma example_upload_400:
  "fst (upload_to_catbox (example_env response_400 rm)
          (lit ''/home/u/Pictures/Screenshots/snip_20240517_090307.png'')
          (snd (take_snip (example_env response_400 rm) example_world)))
     = Inl (RuntimeError (lit ''Upload failed (400): Bad request''))"
  by (simp add: upload_to_catbox_def example_files example_requests_post)
     (simp add: response_400_def str_int_400 lit_def)

lemma example_upload_200:
  "fst (upload_to_catbox (example_env response_200 rm)
          (lit ''/home/u/Pictures/Screenshots/snip_20240517_090307.png'')
          (snd (take_snip (example_env response_200 rm) example_world)))
     = Inr (lit ''https://files.example/abc.png'')"
  by (simp add: upload_to_catbox_def example_files example_requests_post)
     (simp add: response_200_def startswith_def strip_def py_isspace_def lit_def)

lemma example_no_display:
  "fst (take_snip ((example_env resp rm)\<lparr>tk_events := Inl TclError\<rparr>) example_world)
     = Inl TclError"
  by (simp add: take_snip_def)

lemma take_snip_ignores_pyperclip:
  "take_snip (en\<lparr>pyperclip_copy := c\<rparr>) w = take_snip en w"
  by (simp add: take_snip_def cong: sum.case_cong option.case_cong)

lemma upload_to_catbox_ignores_pyperclip:
  "upload_to_catbox (en\<lparr>pyperclip_copy := c\<rparr>) p w = upload_to_catbox en p w"
  by (simp add: upload_to_catbox_def cong: sum.case_cong option.case_cong)

lemma example_clipboard_fails_snip:
  "fst (take_snip ((example_env resp rm)\<lparr>pyperclip_copy := (\<lambda>u. Some PyperclipException)\<rparr>)
          example_world)
     = Inr (lit ''/home/u/Pictures/Screenshots/snip_20240517_090307.png'')"
  by (simp add: take_snip_ignores_pyperclip example_take_snip)

lemma example_clipboard_fails_upload:
  "fst (upload_to_catbox
          ((example_env response_200 rm)\<lparr>pyperclip_copy := (\<lambda>u. Some PyperclipException)\<rparr>)
          (lit ''/home/u/Pictures/Screenshots/snip_20240517_090307.png'')
          (snd (take_snip
                  ((example_env response_200 rm)
                     \<lparr>pyperclip_copy := (\<lambda>u. Some PyperclipException)\<rparr>)
                  example_world)))
     = Inr (lit ''https://files.example/abc.png'')"
  by (simp add: take_snip_ignores_pyperclip upload_to_catbox_ignores_pyperclip
        example_upload_200)

theorem on_hotkey_swallows_witness:
  "fst (on_hotkey (example_env response_400 (Some OSError)) example_world) = Inr ()
   \<and> (ERROR, lit ''Error during snip+upload:'',
        Some (RuntimeError (lit ''Upload failed (400): Bad request'')))
       \<in> set (logged (snd (on_hotkey (example_env response_400 (Some OSError)) example_world)))
   \<and> (ERROR, lit ''Could not delete temp file'', Some OSError)
       \<in> set (logged (snd (on_hotkey (example_env response_400 (Some OSError)) example_world)))
   \<and> (ERROR, lit ''Error during snip+upload:'', Some TclError)
       \<in> set (logged (snd (on_hotkey
             ((example_env response_200 None)\<lparr>tk_events := Inl TclError\<rparr>) example_world)))
   \<and> (ERROR, lit ''Error during snip+upload:'', Some PyperclipException)
       \<in> set (logged (snd (on_hotkey
             ((example_env response_200 None)
                \<lparr>pyperclip_copy := (\<lambda>u. Some PyperclipException)\<rparr>) example_world)))"
proof -
  let ?p = "lit ''/home/u/Pictures/Screenshots/snip_20240517_090307.png''"
  let ?e1 = "example_env response_400 (Some OSError)"
  let ?e2 = "(example_env response_200 None)\<lparr>tk_events := Inl TclError\<rparr>"
  let ?e3 = "(example_env response_200 None)
               \<lparr>pyperclip_copy := (\<lambda>u. Some PyperclipException)\<rparr>"
  have "os_remove ?e1 ?p = Some OSError"
    by (simp add: example_os_remove)
  with on_hotkey_swallows [of ?e1 example_world]
    example_take_snip [of response_400 "Some OSError"] example_upload_400 [of "Some OSError"]
  have 1: "fst (on_hotkey ?e1 example_world) = Inr ()"
    and 2: "(ERROR, lit ''Error during snip+upload:'',
             Some (RuntimeError (lit ''Upload failed (400): Bad request'')))
            \<in> set (logged (snd (on_hotkey ?e1 example_world)))"
    and 3: "(ERROR, lit ''Could not delete temp file'', Some OSError)
            \<in> set (logged (snd (on_hotkey ?e1 example_world)))"
    by blast+
  from on_hotkey_swallows [of ?e2 example_world] example_no_display [of response_200 None]
  have 4: "(ERROR, lit ''Error during snip+upload:'', Some TclError)
            \<in> set (logged (snd (on_hotkey ?e2 example_world)))"
    by blast
  have "pyperclip_copy ?e3 (lit ''https://files.example/abc.png'') = Some PyperclipException"
    by simp
  with on_hotkey_swallows [of ?e3 example_world]
    example_clipboard_fails_snip [of response_200 None]
    example_clipboard_fails_upload [of None]
  have 5: "(ERROR, lit ''Error during snip+upload:'', Some PyperclipException)
            \<in> set (logged (snd (on_hotkey ?e3 example_world)))"
    by blast
  from 1 2 3 4 5 show ?thesis
    by simp
qed

section \<open>Cleanup and clipboard\<close>

lemma take_snip_clipboard: "clipboard (snd (take_snip en w)) = clipboard w"
  by (simp add: take_snip_def Let_def logger_info_def split: sum.splits option.splits)

lemma on_hotkey_clipboard_eq:
  "clipboard (snd (on_hotkey en w)) = clipboard (snd (snd (on_hotkey_try en w)))"
  by (simp add: on_hotkey_eq on_hotkey_finally_clipboard on_hotkey_except_clipboard)

lemma on_hotkey_files_removed:
  assumes "fst (take_snip en w) = Inr p" and "os_remove en p = None"
  shows "files (snd (on_hotkey en w)) = (files w)(p := None)"
proof -
  let ?r = "fst (on_hotkey_try en w)" and ?w1 = "snd (snd (on_hotkey_try en w))"
  let ?w2 = "snd (on_hotkey_except (?r, ?w1))"
  from assms(1) obtain img where "files (snd (take_snip en w)) = (files w)(p \<mapsto> img)"
    and "p \<noteq> []"
    by (rule take_snip_fst_Inr) (simp add: logger_info_def snip_path_nonempty)
  with assms(1) have "files ?w2 = (files w)(p \<mapsto> img)" and "p \<noteq> []"
    by (simp_all add: on_hotkey_try_path on_hotkey_except_files)
  with assms(2) have "files (snd (on_hotkey_finally en (Some p) ?w2)) = (files w)(p := None)"
    by (simp add: on_hotkey_finally_def logger_info_def)
  with assms(1) show ?thesis
    by (simp add: on_hotkey_eq on_hotkey_try_path)
qed

lemma on_hotkey_files_kept:
  assumes "fst (take_snip en w) = Inr p" and "os_remove en p = Some e"
  shows "files (snd (on_hotkey en w)) = files (snd (take_snip en w))"
proof -
  let ?r = "fst (on_hotkey_try en w)" and ?w1 = "snd (snd (on_hotkey_try en w))"
  let ?w2 = "snd (on_hotkey_except (?r, ?w1))"
  from assms(1) have "files ?w2 = files (snd (take_snip en w))"
    by (simp add: on_hotkey_try_path on_hotkey_except_files)
  with assms(2) have "files (snd (on_hotkey_finally en (Some p) ?w2))
      = files (snd (take_snip en w))"
    by (simp add: on_hotkey_finally_def logger_exception_def)
  with assms(1) show ?thesis
    by (simp add: on_hotkey_eq on_hotkey_try_path)
qed

text \<open>
  Claim C5. (as amended) When \<open>take_snip\<close> has returned the path of the capture
  file and \<open>os.remove\<close> does not raise, the file does not exist when \<open>on_hotkey\<close>
  returns, whether the upload and the clipboard write succeeded or raised, and no other
  file has changed. The counterexample below is the session in which \<open>os.remove\<close> raises:
  the failure is logged and the file stays.
\<close>

theorem on_hotkey_deletes_capture:
  assumes "fst (take_snip en w) = Inr p" and "os_remove en p = None"
  shows "files (snd (on_hotkey en w)) p = None
         \<and> (\<forall>q. q \<noteq> p \<longrightarrow> files (snd (on_hotkey en w)) q = files w q)"
  using assms by (simp add: on_hotkey_files_removed)

theorem on_hotkey_deletes_capture_witness:
  "files (snd (take_snip (example_env response_400 None) example_world))
     (lit ''/home/u/Pictures/Screenshots/snip_20240517_090307.png'') = Some [7, 2, 3]
   \<and> files (snd (on_hotkey (example_env response_400 None) example_world))
       (lit ''/home/u/Pictures/Screenshots/snip_20240517_090307.png'') = None"
  using on_hotkey_deletes_capture [of "example_env response_400 None" example_world
      "lit ''/home/u/Pictures/Screenshots/snip_20240517_090307.png''"]
    example_take_snip [of response_400 None] example_files [of response_400 None]
    example_os_remove [of response_400 None]
  by simp

theorem on_hotkey_capture_remains_counterexample:
  "fst (take_snip (example_env response_200 (Some OSError)) example_world)
     = Inr (lit ''/home/u/Pictures/Screenshots/snip_20240517_090307.png'')
   \<and> files example_world (lit ''/home/u/Pictures/Screenshots/snip_20240517_090307.png'') = None
   \<and> files (snd (take_snip (example_env response_200 (Some OSError)) example_world))
       (lit ''/home/u/Pictures/Screenshots/snip_20240517_090307.png'') = Some [7, 2, 3]
   \<and> fst (on_hotkey (example_env response_200 (Some OSError)) example_world) = Inr ()
   \<and> files (snd (on_hotkey (example_env response_200 (Some OSError)) example_world))
       (lit ''/home/u/Pictures/Screenshots/snip_20240517_090307.png'') = Some [7, 2, 3]"
  using on_hotkey_files_kept [of "example_env response_200 (Some OSError)" example_world
      "lit ''/home/u/Pictures/Screenshots/snip_20240517_090307.png''" OSError]
    example_take_snip [of response_200 "Some OSError"]
    example_files [of response_200 "Some OSError"]
    example_os_remove [of response_200 "Some OSError"]
  by (simp add: on_hotkey_eq example_world_def)

text \<open>
  Claim C6. After a session in which selection, capture, upload and clipboard
  write all succeed, the clipboard holds the URL that \<open>upload_to_catbox\<close> returned; after
  a session in which \<open>take_snip\<close>, the upload or the clipboard write raises, the clipboard
  is what it was before. Both hold whatever the cleanup does.
\<close>

theorem on_hotkey_clipboard:
  "(\<forall>p url. fst (take_snip en w) = Inr p
        \<and> fst (upload_to_catbox en p (snd (take_snip en w))) = Inr url
        \<and> pyperclip_copy en url = None \<longrightarrow>
      clipboard (snd (on_hotkey en w)) = url)
   \<and> (\<forall>e. fst (take_snip en w) = Inl e \<longrightarrow>
         clipboard (snd (on_hotkey en w)) = clipboard w)
   \<and> (\<forall>p e. fst (take_snip en w) = Inr p
           \<and> fst (upload_to_catbox en p (snd (take_snip en w))) = Inl e \<longrightarrow>
         clipboard (snd (on_hotkey en w)) = clipboard w)
   \<and> (\<forall>p url e. fst (take_snip en w) = Inr p
           \<and> fst (upload_to_catbox en p (snd (take_snip en w))) = Inr url
           \<and> pyperclip_copy en url = Some e \<longrightarrow>
         clipboard (snd (on_hotkey en w)) = clipboard w)"
  by (simp add: on_hotkey_clipboard_eq on_hotkey_try_snip_fails on_hotkey_try_upload_fails
        on_hotkey_try_copy_fails on_hotkey_try_succeeds upload_frame_snd take_snip_clipboard
        logger_info_def)

theorem on_hotkey_clipboard_witness:
  "clipboard (snd (on_hotkey (example_env response_200 None) example_world))
     = lit ''https://files.example/abc.png''
   \<and> clipboard (snd (on_hotkey (example_env response_200 (Some OSError)) example_world))
       = lit ''https://files.example/abc.png''
   \<and> clipboard (snd (on_hotkey (example_env response_400 None) example_world))
       = clipboard example_world
   \<and> clipboard (snd (on_hotkey
         ((example_env response_200 None)\<lparr>tk_events := Inl TclError\<rparr>) example_world))
       = clipboard example_world
   \<and> clipboard (snd (on_hotkey
         ((example_env response_200 None)\<lparr>pyperclip_copy := (\<lambda>u. Some PyperclipException)\<rparr>)
         example_world))
       = clipboard example_world"
proof -
  let ?url = "lit ''https://files.example/abc.png''"
  let ?e2 = "(example_env response_200 None)\<lparr>tk_events := Inl TclError\<rparr>"
  let ?e3 = "(example_env response_200 None)
               \<lparr>pyperclip_copy := (\<lambda>u. Some PyperclipException)\<rparr>"
  have ok: "clipboard (snd (on_hotkey (example_env response_200 rm) example_world)) = ?url"
    for rm
    using on_hotkey_clipboard [of "example_env response_200 rm" example_world]
      example_take_snip [of response_200 rm] example_upload_200 [of rm]
      example_pyperclip_copy [of response_200 rm ?url]
    by blast
  have up: "clipboard (snd (on_hotkey (example_env response_400 None) example_world))
              = clipboard example_world"
    using on_hotkey_clipboard [of "example_env response_400 None" example_world]
      example_take_snip [of response_400 None] example_upload_400 [of None]
    by blast
  have sel: "clipboard (snd (on_hotkey ?e2 example_world)) = clipboard example_world"
    using on_hotkey_clipboard [of ?e2 example_world] example_no_display [of response_200 None]
    by blast
  have "pyperclip_copy ?e3 ?url = Some PyperclipException"
    by simp
  then have cp: "clipboard (snd (on_hotkey ?e3 example_world)) = clipboard example_world"
    using on_hotkey_clipboard [of ?e3 example_world]
      example_clipboard_fails_snip [of response_200 None]
      example_clipboard_fails_upload [of None]
    by blast
  from ok [of None] ok [of "Some OSError"] up sel cp show ?thesis
    by simp
qed

section \<open>The capture file\<close>

text \<open>
  Claim C8. When \<open>take_snip\<close> returns, its result is the path
  \<open>TMP_DIR/snip_<ts>.png\<close> where \<open>ts\<close> has fifteen characters, eight digits, an
  underscore and six digits, which read back as the year, month, day, hour, minute and
  second of the clock; and the file at that path holds the image that was grabbed.
\<close>

theorem take_snip_writes_timestamped_file:
  assumes "fst (take_snip en w) = Inr p" and "clock_datetime (datetime_now en)"
  shows "\<exists>ts es img.
           p = TMP_DIR (home en) @ lit ''/'' @ lit ''snip_'' @ ts @ lit ''.png''
           \<and> length ts = 15
           \<and> list_all is_digit (take 8 ts) \<and> take 1 (drop 8 ts) = lit ''_''
           \<and> list_all is_digit (drop 9 ts)
           \<and> decimal (take 4 ts) = year (datetime_now en)
           \<and> decimal (take 2 (drop 4 ts)) = month (datetime_now en)
           \<and> decimal (take 2 (drop 6 ts)) = day (datetime_now en)
           \<and> decimal (take 2 (drop 9 ts)) = hour (datetime_now en)
           \<and> decimal (take 2 (drop 11 ts)) = minute (datetime_now en)
           \<and> decimal (take 2 (drop 13 ts)) = second (datetime_now en)
           \<and> tk_events en = Inr es
           \<and> ImageGrab_grab en (selection_rect (SnippingTool es)) = Inr img
           \<and> files (snd (take_snip en w)) p = Some img"
proof -
  let ?ts = "strftime (datetime_now en)"
  from assms(1) obtain es img where ev: "tk_events en = Inr es"
    and gr: "ImageGrab_grab en (selection_rect (SnippingTool es)) = Inr img"
    and p: "p = os_path_join (TMP_DIR (home en)) (snip_filename (datetime_now en))"
    and w: "snd (take_snip en w) = logger_info (lit ''Region snipped and saved to '' @ p)
                (w\<lparr>files := (files w)(p \<mapsto> img)\<rparr>)"
    by (rule take_snip_fst_Inr)
  from p have path: "p = TMP_DIR (home en) @ lit ''/'' @ lit ''snip_'' @ ?ts @ lit ''.png''"
    using snip_path [of "home en" "datetime_now en"] by (simp add: snip_filename_def)
  from w have saved: "files (snd (take_snip en w)) p = Some img"
    by (simp add: logger_info_def)
  have sep: "take 1 (drop 8 ?ts) = lit ''_''"
    using assms(2) by (simp add: strftime_clock lit_def)
  note shape = strftime_shape [OF assms(2)] and fields = strftime_fields [OF assms(2)]
  show ?thesis
    using path ev gr saved sep shape(1,3,4) fields by blast
qed

theorem take_snip_writes_timestamped_file_witness:
  "\<exists>ts. lit ''/home/u/Pictures/Screenshots/snip_20240517_090307.png''
            = TMP_DIR (lit ''/home/u'') @ lit ''/'' @ lit ''snip_'' @ ts @ lit ''.png''
        \<and> length ts = 15
        \<and> decimal (take 4 ts) = 2024 \<and> decimal (take 2 (drop 4 ts)) = 5
        \<and> decimal (take 2 (drop 6 ts)) = 17 \<and> decimal (take 2 (drop 9 ts)) = 9
        \<and> decimal (take 2 (drop 11 ts)) = 3 \<and> decimal (take 2 (drop 13 ts)) = 7
        \<and> files (snd (take_snip (example_env response_200 None) example_world))
              (lit ''/home/u/Pictures/Screenshots/snip_20240517_090307.png'') = Some [7, 2, 3]"
proof -
  have c: "clock_datetime (datetime_now (example_env response_200 None))"
    by (simp add: example_env_def example_now_def clock_datetime_def)
  have g: "ImageGrab_grab (example_env response_200 None) b = Inr [7, 2, 3]" for b
    by (simp add: example_env_def)
  have d: "datetime_now (example_env response_200 None) = example_now"
    and h: "home (example_env response_200 None) = lit ''/home/u''"
    by (simp_all add: example_env_def)
  from take_snip_writes_timestamped_file [OF example_take_snip [of response_200 None] c]
  show ?thesis
    unfolding d h g by (auto simp add: example_now_def)
qed

lemma same_second_strftime:
  assumes "same_second a b"
  shows "strftime a = strftime b"
  using assms by (simp add: same_second_def strftime_def)

text \<open>
  Claim C10. Two invocations of \<open>take_snip\<close> with the same home directory
  whose clock readings agree up to the second (they may differ in microseconds) return
  the same path, and after the second one the file at that path holds the second image,
  whatever it held before.
\<close>

theorem take_snip_same_second_same_path:
  assumes "fst (take_snip en1 w) = Inr p1" and "fst (take_snip en2 w') = Inr p2"
    and "home en2 = home en1"
    and "same_second (datetime_now en1) (datetime_now en2)"
  shows "p2 = p1
         \<and> (\<exists>es img. tk_events en2 = Inr es
               \<and> ImageGrab_grab en2 (selection_rect (SnippingTool es)) = Inr img
               \<and> files (snd (take_snip en2 w')) p1 = Some img)"
proof -
  from assms(1) have p1: "p1 = os_path_join (TMP_DIR (home en1)) (snip_filename (datetime_now en1))"
    by (rule take_snip_fst_Inr)
  from assms(2) obtain es img where ev: "tk_events en2 = Inr es"
    and gr: "ImageGrab_grab en2 (selection_rect (SnippingTool es)) = Inr img"
    and p2: "p2 = os_path_join (TMP_DIR (home en2)) (snip_filename (datetime_now en2))"
    and w: "snd (take_snip en2 w') = logger_info (lit ''Region snipped and saved to '' @ p2)
                (w'\<lparr>files := (files w')(p2 \<mapsto> img)\<rparr>)"
    by (rule take_snip_fst_Inr)
  from p1 p2 assms(3,4) have eq: "p2 = p1"
    by (simp add: snip_filename_def same_second_strftime)
  from w eq have "files (snd (take_snip en2 w')) p1 = Some img"
    by (simp add: logger_info_def)
  with eq ev gr show ?thesis
    by blast
qed

theorem take_snip_same_second_same_path_witness:
  "files (snd (take_snip (example_env response_200 None) example_world))
     (lit ''/home/u/Pictures/Screenshots/snip_20240517_090307.png'') = Some [7, 2, 3]
   \<and> fst (take_snip ((example_env response_200 None)
                 \<lparr>ImageGrab_grab := (\<lambda>b. Inr [9, 9]),
                  datetime_now := example_now\<lparr>microsecond := 999999\<rparr>\<rparr>)
              (snd (take_snip (example_env response_200 None) example_world)))
       = Inr (lit ''/home/u/Pictures/Screenshots/snip_20240517_090307.png'')
   \<and> files (snd (take_snip ((example_env response_200 None)
                 \<lparr>ImageGrab_grab := (\<lambda>b. Inr [9, 9]),
                  datetime_now := example_now\<lparr>microsecond := 999999\<rparr>\<rparr>)
              (snd (take_snip (example_env response_200 None) example_world))))
       (lit ''/home/u/Pictures/Screenshots/snip_20240517_090307.png'') = Some [9, 9]"
proof -
  let ?e1 = "example_env response_200 None"
  let ?e2 = "?e1\<lparr>ImageGrab_grab := (\<lambda>b. Inr [9, 9]),
                 datetime_now := example_now\<lparr>microsecond := 999999\<rparr>\<rparr>"
  let ?w1 = "snd (take_snip ?e1 example_world)"
  let ?p = "lit ''/home/u/Pictures/Screenshots/snip_20240517_090307.png''"
  have s: "same_second (datetime_now ?e1) (datetime_now ?e2)"
    by (simp add: same_second_def example_env_def)
  have "\<exists>p2. fst (take_snip ?e2 ?w1) = Inr p2"
    by (simp add: take_snip_def example_env_def Let_def)
  then obtain p2 where p2: "fst (take_snip ?e2 ?w1) = Inr p2" ..
  have g: "ImageGrab_grab ?e2 b = Inr [9, 9]" for b
    by simp
  from take_snip_same_second_same_path [OF example_take_snip [of response_200 None] p2 _ s]
  have "p2 = ?p \<and> files (snd (take_snip ?e2 ?w1)) ?p = Some [9, 9]"
    unfolding g by auto
  with p2 example_files [of response_200 None] show ?thesis
    by simp
qed

end
